theory Spec2Isabelle
  imports Main "HOL-Library.Word"
begin

unbundle bit_operations_syntax

section \<open>Common types\<close>

text \<open>
  Go strings and byte slices are byte sequences: \<open>string\<close> (a \<open>char list\<close>) and
  \<open>byte list\<close>. A nil slice and an empty slice are both \<open>[]\<close>.
  Pointers to nodes are references into an explicit store; a nil pointer is \<open>None\<close>.
\<close>

type_synonym byte = "8 word"
type_synonym ref = nat

text \<open>
  Go errors are values. The constructors follow the places where the source makes an
  error: the two \<open>errors.New\<close> messages of \<open>ReadBlock\<close> and \<open>ReadInto\<close>, the message of
  \<open>checkVersion\<close> (compiled-in version, version read), the message of
  \<open>LocalDirStore.reindex\<close>, and the errors handed up from the operating system, from
  the writer given to \<open>ReadInto\<close> and from the gob decoder.
\<close>

datatype error =
    BlockNotFound string
  | FileNotFound string
  | VersionMismatch int int
  | ReindexFailed string
  | OSError string
  | EOF
  | WriteError
  | GobError

text \<open>A call either returns or panics (nil dereference).\<close>

datatype 'a go = Returns 'a | Panics

section \<open>The strings functions used by the store\<close>

text \<open>
  \<open>strings.Replace(s, old, new, 1)\<close>: the leftmost occurrence of \<open>old\<close> in \<open>s\<close> is
  replaced by \<open>new\<close>; an empty \<open>old\<close> matches at the beginning of the string.
  The store only calls it with the count 1.
\<close>

fun strings_Replace1 :: "string \<Rightarrow> string \<Rightarrow> string \<Rightarrow> string" where
  "strings_Replace1 [] old new = (if old = [] then new else [])"
| "strings_Replace1 (c # cs) old new =
     (if take (length old) (c # cs) = old then new @ drop (length old) (c # cs)
      else c # strings_Replace1 cs old new)"

text \<open>\<open>strings.TrimLeft(s, cutset)\<close>: all leading bytes contained in \<open>cutset\<close> removed.\<close>

definition strings_TrimLeft :: "string \<Rightarrow> string \<Rightarrow> string" where
  "strings_TrimLeft s cutset = dropWhile (\<lambda>c. c \<in> set cutset) s"

text \<open>The cutset \<open>"/\\"\<close> of \<open>RelPath\<close>: slash and backslash.\<close>

definition separators :: string where
  "separators = [CHR ''/'', CHR 0x5C]"

section \<open>Index nodes\<close>

text \<open>
  Modelled from the spec: the declarations of \<open>Block\<close>, \<open>File\<close>, \<open>Dir\<close> and
  \<open>BlockIndex\<close> are not in the source files at hand. The fields are the ones the
  codec and the store touch: a Block has \<open>position\<close>, \<open>weak\<close>, \<open>strong\<close> and its owning
  File; a File has \<open>name\<close>, \<open>mode\<close>, \<open>strong\<close>, \<open>Size\<close>, its \<open>Blocks\<close> and its parent Dir;
  a Dir has \<open>name\<close>, \<open>mode\<close>, \<open>strong\<close>, \<open>SubDirs\<close>, \<open>Files\<close> and its parent Dir.
  Child collections hold pointers, as the loops \<open>block.parent = file\<close> of the decoders
  require.
\<close>

record Block =
  position :: int
  weak :: int
  strong :: string
  parent :: "ref option"

record File =
  name :: string
  mode :: nat
  strong :: string
  Size :: int
  Blocks :: "ref list"
  parent :: "ref option"

record Dir =
  name :: string
  mode :: nat
  strong :: string
  SubDirs :: "ref list"
  Files :: "ref list"
  parent :: "ref option"

text \<open>The store of nodes: one address space per node kind, and the next free address.\<close>

record heap =
  blockAt :: "ref \<rightharpoonup> Block"
  fileAt :: "ref \<rightharpoonup> File"
  dirAt :: "ref \<rightharpoonup> Dir"
  nextRef :: ref

definition BLOCKSIZE :: int where
  "BLOCKSIZE = 8192"

text \<open>
  Modelled from the spec: \<open>BlockIndex\<close> maps strong checksums to Block and File nodes;
  \<open>StrongBlock\<close> and \<open>StrongFile\<close> return the node and a found flag.
\<close>

record BlockIndex =
  blockMap :: "string \<rightharpoonup> ref"
  fileMap :: "string \<rightharpoonup> ref"

definition StrongBlock :: "BlockIndex \<Rightarrow> string \<Rightarrow> ref option" where
  "StrongBlock idx strongSum = blockMap idx strongSum"

definition StrongFile :: "BlockIndex \<Rightarrow> string \<Rightarrow> ref option" where
  "StrongFile idx strongSum = fileMap idx strongSum"

text \<open>
  Modelled from the spec: a Block's byte offset is \<open>position \<times> BLOCKSIZE\<close>
  (\<open>Block.Offset\<close> is not in the source files at hand).
\<close>

definition Offset :: "Block \<Rightarrow> int" where
  "Offset block = Block.position block * BLOCKSIZE"

section \<open>The local store\<close>

text \<open>
  \<open>localBase\<close> of the two-variant store. The single-variant \<open>LocalStore\<close> of the
  first revision has the same three fields (and \<open>root\<close>), and its methods \<open>RelPath\<close>,
  \<open>Relocate\<close>, \<open>Resolve\<close>, \<open>ReadBlock\<close> and \<open>ReadInto\<close> have the same bodies, reading
  \<open>store.rootPath\<close> where these read \<open>store.RootPath()\<close>. The index pointer is nil
  until \<open>reindex\<close> has run.
\<close>

record localBase =
  rootPath :: string
  index :: "BlockIndex option"
  relocs :: "string \<rightharpoonup> string"

definition RootPath :: "localBase \<Rightarrow> string" where
  "RootPath store = rootPath store"

definition RelPath :: "localBase \<Rightarrow> string \<Rightarrow> string" where
  "RelPath store fullpath =
     (let relpath = strings_Replace1 fullpath (RootPath store) [];
          relpath = strings_TrimLeft relpath separators
      in relpath)"

text \<open>
  \<open>Resolve\<close>. \<open>filepath.Join\<close> belongs to the Go library; it is the parameter \<open>join\<close>.
\<close>

definition Resolve :: "(string \<Rightarrow> string \<Rightarrow> string) \<Rightarrow> localBase \<Rightarrow> string \<Rightarrow> string" where
  "Resolve join store relpath =
     (let relpath = (case relocs store relpath of Some relocPath \<Rightarrow> relocPath | None \<Rightarrow> relpath)
      in join (RootPath store) relpath)"

text \<open>
  \<open>filepath.Clean\<close> and \<open>filepath.Join\<close> of the Go library for slash-separated paths, as
  their documentation has them, for concrete runs. \<open>Clean\<close> drops empty and \<open>.\<close>
  elements, resolves a \<open>..\<close> against the element before it, drops a \<open>..\<close> that
  follows the root, and gives \<open>.\<close> for an empty result. \<open>Join\<close> joins the non-empty
  ones of its elements with a slash and cleans the result.
\<close>

fun splitSlash :: "string \<Rightarrow> string list" where
  "splitSlash [] = [[]]"
| "splitSlash (c # cs) =
     (if c = CHR ''/'' then [] # splitSlash cs
      else (case splitSlash cs of e # es \<Rightarrow> (c # e) # es | [] \<Rightarrow> [[c]]))"

fun joinSlash :: "string list \<Rightarrow> string" where
  "joinSlash [] = []"
| "joinSlash [e] = e"
| "joinSlash (e # es) = e @ ''/'' @ joinSlash es"

fun cleanElems :: "bool \<Rightarrow> string list \<Rightarrow> string list \<Rightarrow> string list" where
  "cleanElems rooted [] out = rev out"
| "cleanElems rooted (e # es) out =
     (if e = [] \<or> e = ''.'' then cleanElems rooted es out
      else if e = ''..''
           then (case out of
                   [] \<Rightarrow> if rooted then cleanElems rooted es [] else cleanElems rooted es [''..'']
                 | e' # out' \<Rightarrow>
                     if e' = ''..'' then cleanElems rooted es (''..'' # out)
                     else cleanElems rooted es out')
           else cleanElems rooted es (e # out))"

definition filepath_Clean :: "string \<Rightarrow> string" where
  "filepath_Clean path =
     (let rooted = (case path of c # _ \<Rightarrow> c = CHR ''/'' | [] \<Rightarrow> False);
          cleaned = (if rooted then ''/'' else []) @ joinSlash (cleanElems rooted (splitSlash path) [])
      in if cleaned = [] then ''.'' else cleaned)"

definition filepath_Join :: "string \<Rightarrow> string \<Rightarrow> string" where
  "filepath_Join a b =
     (let elems = filter (\<lambda>e. e \<noteq> []) [a, b]
      in if elems = [] then [] else filepath_Clean (joinSlash elems))"

text \<open>
  \<open>Relocate\<close>. The four calls that touch the disk are \<open>ioutil.TempFile\<close> (the error or the
  name of the file created), \<open>Close\<close>, \<open>os.Remove\<close> and \<open>Move\<close>; their outcomes are given.
  The result is the pair the method returns and the store afterwards.
\<close>

record relocate_io =
  tempFile :: "error + string"
  closeErr :: "error option"
  removeErr :: "error option"
  moveErr :: "error option"

definition Relocate ::
  "relocate_io \<Rightarrow> localBase \<Rightarrow> string \<Rightarrow> (string \<times> error option) \<times> localBase" where
  "Relocate io store fullpath =
     (case tempFile io of
        Inl err \<Rightarrow> (([], Some err), store)
      | Inr relocFullpath \<Rightarrow>
          (case closeErr io of
             Some err \<Rightarrow> (([], Some err), store)
           | None \<Rightarrow>
               (case removeErr io of
                  Some err \<Rightarrow> (([], Some err), store)
                | None \<Rightarrow>
                    (case moveErr io of
                       Some err \<Rightarrow> (([], Some err), store)
                     | None \<Rightarrow>
                         (let relpath = RelPath store fullpath;
                              relocRelpath = RelPath store relocFullpath
                          in ((relocFullpath, None),
                              store\<lparr>relocs := (relocs store)(relpath \<mapsto> relocRelpath)\<rparr>))))))"

text \<open>
  The files on disk, for \<open>ReadInto\<close>: a path holds the bytes of a regular file or nothing.
  \<open>os.Open\<close> gives a handle at position 0 or an error with a nil handle; \<open>Seek(from, 0)\<close>
  fails on a negative offset and otherwise sets the position, also beyond the end.
\<close>

record handle =
  contents :: "byte list"
  pos :: nat

definition os_Open :: "(string \<rightharpoonup> byte list) \<Rightarrow> string \<Rightarrow> handle option \<times> error option" where
  "os_Open disk path =
     (case disk path of
        None \<Rightarrow> (None, Some (OSError path))
      | Some bs \<Rightarrow> (Some \<lparr>contents = bs, pos = 0\<rparr>, None))"

definition Seek :: "handle \<Rightarrow> int \<Rightarrow> handle \<times> error option" where
  "Seek fh from = (if from < 0 then (fh, Some (OSError ''seek'')) else (fh\<lparr>pos := nat from\<rparr>, None))"

text \<open>
  An \<open>io.Writer\<close>: the bytes it has accepted so far, and how many more it will accept
  before its \<open>Write\<close> fails (\<open>None\<close>: any number, as a \<open>bytes.Buffer\<close>). A \<open>Write\<close> of
  more bytes than the writer has room for accepts what fits and returns that count
  with an error.
\<close>

record Writer =
  accepted :: "byte list"
  room :: "nat option"

definition Write :: "Writer \<Rightarrow> byte list \<Rightarrow> (nat \<times> error option) \<times> Writer" where
  "Write wr p =
     (case room wr of
        None \<Rightarrow> ((length p, None), wr\<lparr>accepted := accepted wr @ p\<rparr>)
      | Some k \<Rightarrow>
          if length p \<le> k
          then ((length p, None), wr\<lparr>accepted := accepted wr @ p, room := Some (k - length p)\<rparr>)
          else ((k, Some WriteError), wr\<lparr>accepted := accepted wr @ take k p, room := Some 0\<rparr>))"

definition bytes_Buffer :: Writer where
  "bytes_Buffer = \<lparr>accepted = [], room = None\<rparr>"

definition Bytes :: "Writer \<Rightarrow> byte list" where
  "Bytes buf = accepted buf"

text \<open>
  \<open>io.CopyN(writer, fh, n)\<close>: the bytes of the file from the handle's position on, at
  most \<open>n\<close> of them and none for a negative \<open>n\<close>, are written to the writer. The count
  is the number of bytes the writer accepted. A failed write ends the copy with the
  writer's error; otherwise \<open>EOF\<close> is reported when the count is smaller than \<open>n\<close>.
\<close>

definition io_CopyN :: "Writer \<Rightarrow> handle \<Rightarrow> int \<Rightarrow> (int \<times> error option) \<times> Writer" where
  "io_CopyN writer fh n =
     (let chunk = take (nat n) (drop (pos fh) (contents fh))
      in case Write writer chunk of
           ((nw, Some ew), writer) \<Rightarrow> ((int nw, Some ew), writer)
         | ((nw, None), writer) \<Rightarrow>
             ((int nw, if int nw < n then Some EOF else None), writer))"

text \<open>
  What the store's reads stand on: the library's \<open>filepath.Join\<close>, the package function
  \<open>RelPath(file)\<close> that gives an indexed File's path relative to the root (not in the
  source files at hand), the files on disk and the store of nodes.
\<close>

record world =
  Join :: "string \<Rightarrow> string \<Rightarrow> string"
  nodeRelPath :: "ref \<Rightarrow> string"
  disk :: "string \<rightharpoonup> byte list"
  nodes :: heap

text \<open>
  \<open>ReadInto\<close>: the pair returned, and the writer afterwards. The parameters
  \<open>strong\<close> and \<open>length\<close> are written \<open>strongSum\<close> and \<open>len\<close>.
\<close>

definition ReadInto ::
  "world \<Rightarrow> localBase \<Rightarrow> string \<Rightarrow> int \<Rightarrow> int \<Rightarrow> Writer \<Rightarrow> ((int \<times> error option) \<times> Writer) go" where
  "ReadInto w store strongSum from len writer =
     (case index store of
        None \<Rightarrow> Panics
      | Some idx \<Rightarrow>
          (case StrongFile idx strongSum of
             None \<Rightarrow> Returns ((0, Some (FileNotFound strongSum)), writer)
           | Some file \<Rightarrow>
               (let path = Resolve (Join w) store (nodeRelPath w file)
                in case os_Open (disk w) path of
                     (None, err) \<Rightarrow> Returns ((0, err), writer)
                   | (Some fh, _) \<Rightarrow>
                       (case Seek fh from of
                          (_, Some err) \<Rightarrow> Returns ((0, Some err), writer)
                        | (fh, None) \<Rightarrow>
                            (case io_CopyN writer fh len of
                               ((n, Some err), writer) \<Rightarrow> Returns ((n, Some err), writer)
                             | ((n, None), writer) \<Rightarrow> Returns ((n, None), writer))))))"

text \<open>
  \<open>ReadBlock\<close>. \<open>block.Parent().Strong()\<close> follows the block's parent pointer to its File;
  a nil or dangling pointer there is a panic. The buffer is a new \<open>bytes.Buffer\<close>;
  the count returned by \<open>ReadInto\<close> is dropped.
\<close>

definition ReadBlock :: "world \<Rightarrow> localBase \<Rightarrow> string \<Rightarrow> (byte list \<times> error option) go" where
  "ReadBlock w store strongSum =
     (case index store of
        None \<Rightarrow> Panics
      | Some idx \<Rightarrow>
          (case StrongBlock idx strongSum of
             None \<Rightarrow> Returns ([], Some (BlockNotFound strongSum))
           | Some blockRef \<Rightarrow>
               (case blockAt (nodes w) blockRef of
                  None \<Rightarrow> Panics
                | Some block \<Rightarrow>
                    (case Block.parent block of
                       None \<Rightarrow> Panics
                     | Some fileRef \<Rightarrow>
                         (case fileAt (nodes w) fileRef of
                            None \<Rightarrow> Panics
                          | Some file \<Rightarrow>
                              (case ReadInto w store (File.strong file) (Offset block) BLOCKSIZE
                                      bytes_Buffer of
                                 Panics \<Rightarrow> Panics
                               | Returns ((_, err), buf) \<Rightarrow>
                                   (if err = None then Returns ([], err)
                                    else Returns (Bytes buf, None))))))))"

text \<open>
  The two-variant factory \<open>NewLocalStore\<close>. \<open>os.Stat\<close> is given as a function of the
  path. \<open>IndexDir\<close>, \<open>IndexFile\<close> and \<open>IndexBlocks\<close> are not in the source files at
  hand and are parameters. An \<open>FsNode\<close> passed to \<open>IndexBlocks\<close> is an interface value
  holding a \<open>*Dir\<close> or a \<open>*File\<close>. The interface variable \<open>local\<close> starts nil
  (\<open>None\<close>); calling a method on a nil interface value panics.
\<close>

record FileInfo =
  IsDirectory :: bool
  IsRegular :: bool

datatype FsNode = DirNode "ref option" | FileNode "ref option"

record indexer =
  IndexDir :: "string \<Rightarrow> ref option"
  IndexFile :: "string \<Rightarrow> ref option \<times> error option"
  IndexBlocks :: "FsNode \<Rightarrow> BlockIndex"

datatype LocalStore =
    LocalDirStore localBase "ref option"
  | LocalFileStore localBase "ref option"

fun reindex :: "indexer \<Rightarrow> LocalStore \<Rightarrow> error option \<times> LocalStore" where
  "reindex ix (LocalDirStore base _) =
     (let dir = IndexDir ix (RootPath base)
      in if dir = None then (Some (ReindexFailed (RootPath base)), LocalDirStore base dir)
         else (None, LocalDirStore (base\<lparr>index := Some (IndexBlocks ix (DirNode dir))\<rparr>) dir))"
| "reindex ix (LocalFileStore base _) =
     (case IndexFile ix (RootPath base) of
        (file, Some err) \<Rightarrow> (Some err, LocalFileStore base file)
      | (file, None) \<Rightarrow>
          (None, LocalFileStore (base\<lparr>index := Some (IndexBlocks ix (FileNode file))\<rparr>) file))"

definition NewLocalStore ::
  "indexer \<Rightarrow> (string \<Rightarrow> error + FileInfo) \<Rightarrow> string \<Rightarrow> (LocalStore option \<times> error option) go" where
  "NewLocalStore ix os_Stat root =
     (case os_Stat root of
        Inl err \<Rightarrow> Returns (None, Some err)
      | Inr rootInfo \<Rightarrow>
          (let base = \<lparr>rootPath = root, index = None, relocs = Map.empty\<rparr>;
               local = (if IsDirectory rootInfo then Some (LocalDirStore base None)
                        else if IsRegular rootInfo then Some (LocalFileStore base None)
                        else None)
           in case local of
                None \<Rightarrow> Panics
              | Some store \<Rightarrow>
                  (case reindex ix store of
                     (Some err, _) \<Rightarrow> Returns (None, Some err)
                   | (None, store) \<Rightarrow> Returns (Some store, None))))"

text \<open>
  A small store for concrete runs: the root \<open>/tmp/store\<close> holds one file \<open>a.txt\<close> of
  8192 bytes, all 7, indexed as the File \<open>F\<close> with the single Block \<open>B\<close>.
\<close>

definition exampleNodes :: heap where
  "exampleNodes =
     \<lparr>blockAt = [0 \<mapsto> \<lparr>position = 0, weak = 0, Block.strong = ''B'', Block.parent = Some 0\<rparr>],
      fileAt = [0 \<mapsto> \<lparr>File.name = ''a.txt'', File.mode = 420, File.strong = ''F'', Size = 8192,
                       Blocks = [0], File.parent = None\<rparr>],
      dirAt = Map.empty,
      nextRef = 1\<rparr>"

definition exampleWorld :: world where
  "exampleWorld =
     \<lparr>Join = filepath_Join,
      nodeRelPath = (\<lambda>_. ''a.txt''),
      disk = [''/tmp/store/a.txt'' \<mapsto> replicate 8192 7],
      nodes = exampleNodes\<rparr>"

definition exampleStore :: localBase where
  "exampleStore =
     \<lparr>rootPath = ''/tmp/store'',
      index = Some \<lparr>blockMap = [''B'' \<mapsto> 0], fileMap = [''F'' \<mapsto> 0]\<rparr>,
      relocs = Map.empty\<rparr>"

section \<open>The node codec\<close>

text \<open>
  The \<open>gob\<close> package belongs to the Go library. A gob stream is modelled as the
  sequence of values written to it: \<open>EncodeValue\<close> appends one value, \<open>DecodeValue\<close>
  takes the next one and fails when the stream is at its end or the value has another
  type than the variable decoded into. Signed integers, unsigned integers and strings
  are the basic values; a slice of nodes that encode themselves (\<open>[]*Block\<close>,
  \<open>[]*File\<close>, \<open>[]*Dir\<close>) travels as the sequence of the blobs their \<open>GobEncode\<close>
  produced. A blob (\<open>[]byte\<close>) is the stream it holds.
\<close>

datatype gobValue =
    GobInt int
  | GobUint nat
  | GobString string
  | GobSlice "gobValue list list"

fun decodeInt :: "gobValue list \<Rightarrow> (error + int) \<times> gobValue list" where
  "decodeInt [] = (Inl EOF, [])"
| "decodeInt (GobInt i # rest) = (Inr i, rest)"
| "decodeInt (_ # rest) = (Inl GobError, rest)"

fun decodeUint :: "gobValue list \<Rightarrow> (error + nat) \<times> gobValue list" where
  "decodeUint [] = (Inl EOF, [])"
| "decodeUint (GobUint i # rest) = (Inr i, rest)"
| "decodeUint (_ # rest) = (Inl GobError, rest)"

fun decodeString :: "gobValue list \<Rightarrow> (error + string) \<times> gobValue list" where
  "decodeString [] = (Inl EOF, [])"
| "decodeString (GobString s # rest) = (Inr s, rest)"
| "decodeString (_ # rest) = (Inl GobError, rest)"

fun decodeSlice :: "gobValue list \<Rightarrow> (error + gobValue list list) \<times> gobValue list" where
  "decodeSlice [] = (Inl EOF, [])"
| "decodeSlice (GobSlice blobs # rest) = (Inr blobs, rest)"
| "decodeSlice (_ # rest) = (Inl GobError, rest)"

text \<open>\<open>EncodeValue\<close> of a basic value into a \<open>bytes.Buffer\<close>: the value is appended.\<close>

definition EncodeValue :: "gobValue list \<Rightarrow> gobValue \<Rightarrow> gobValue list \<times> error option" where
  "EncodeValue buffer v = (buffer @ [v], None)"

definition gobNodeVersion :: int where
  "gobNodeVersion = 1"

text \<open>
  \<open>checkVersion\<close>: \<open>version\<close> starts 0, the error of \<open>DecodeValue\<close> is dropped, and the
  value read is compared with \<open>gobNodeVersion\<close>.
\<close>

definition checkVersion :: "gobValue list \<Rightarrow> error option \<times> gobValue list" where
  "checkVersion decoder =
     (case decodeInt decoder of
        (r, decoder) \<Rightarrow>
          (let version = (case r of Inr v \<Rightarrow> v | Inl _ \<Rightarrow> 0)
           in if version \<noteq> gobNodeVersion
              then (Some (VersionMismatch gobNodeVersion version), decoder)
              else (None, decoder)))"

text \<open>
  Writes through a node pointer, and allocation of a zero node, as the decoder of a
  slice of pointers does for each element. Go's pointers are nil or valid; a
  reference with no node in the store stands for no pointer of the program, and a
  write through it changes nothing.
\<close>

definition setBlock :: "ref \<Rightarrow> (Block \<Rightarrow> Block) \<Rightarrow> heap \<Rightarrow> heap" where
  "setBlock r f h = h\<lparr>blockAt := (blockAt h)(r := map_option f (blockAt h r))\<rparr>"

definition setFile :: "ref \<Rightarrow> (File \<Rightarrow> File) \<Rightarrow> heap \<Rightarrow> heap" where
  "setFile r f h = h\<lparr>fileAt := (fileAt h)(r := map_option f (fileAt h r))\<rparr>"

definition setDir :: "ref \<Rightarrow> (Dir \<Rightarrow> Dir) \<Rightarrow> heap \<Rightarrow> heap" where
  "setDir r f h = h\<lparr>dirAt := (dirAt h)(r := map_option f (dirAt h r))\<rparr>"

definition newBlock :: "heap \<Rightarrow> ref \<times> heap" where
  "newBlock h =
     (nextRef h,
      h\<lparr>blockAt := (blockAt h)(nextRef h \<mapsto>
            \<lparr>position = 0, weak = 0, Block.strong = [], Block.parent = None\<rparr>),
        nextRef := Suc (nextRef h)\<rparr>)"

definition newFile :: "heap \<Rightarrow> ref \<times> heap" where
  "newFile h =
     (nextRef h,
      h\<lparr>fileAt := (fileAt h)(nextRef h \<mapsto>
            \<lparr>File.name = [], File.mode = 0, File.strong = [], Size = 0, Blocks = [],
             File.parent = None\<rparr>),
        nextRef := Suc (nextRef h)\<rparr>)"

definition newDir :: "heap \<Rightarrow> ref \<times> heap" where
  "newDir h =
     (nextRef h,
      h\<lparr>dirAt := (dirAt h)(nextRef h \<mapsto>
            \<lparr>Dir.name = [], Dir.mode = 0, Dir.strong = [], SubDirs = [], Files = [],
             Dir.parent = None\<rparr>),
        nextRef := Suc (nextRef h)\<rparr>)"

definition fileBlocks :: "heap \<Rightarrow> ref \<Rightarrow> ref list" where
  "fileBlocks h r = (case fileAt h r of Some f \<Rightarrow> Blocks f | None \<Rightarrow> [])"

definition dirFiles :: "heap \<Rightarrow> ref \<Rightarrow> ref list" where
  "dirFiles h r = (case dirAt h r of Some d \<Rightarrow> Files d | None \<Rightarrow> [])"

definition dirSubDirs :: "heap \<Rightarrow> ref \<Rightarrow> ref list" where
  "dirSubDirs h r = (case dirAt h r of Some d \<Rightarrow> SubDirs d | None \<Rightarrow> [])"

text \<open>
  \<open>Block.GobDecode\<close>, on the Block at \<open>block\<close>: the error returned and the store
  afterwards.
\<close>

definition Block_GobDecode :: "gobValue list \<Rightarrow> ref \<Rightarrow> heap \<Rightarrow> error option \<times> heap" where
  "Block_GobDecode buf block h =
     (case checkVersion buf of
        (Some err, _) \<Rightarrow> (Some err, h)
      | (None, decoder) \<Rightarrow>
     (case decodeInt decoder of
        (Inl err, _) \<Rightarrow> (Some err, h)
      | (Inr v, decoder) \<Rightarrow>
     (case setBlock block (\<lambda>b. b\<lparr>position := v\<rparr>) h of h \<Rightarrow>
     (case decodeInt decoder of
        (Inl err, _) \<Rightarrow> (Some err, h)
      | (Inr v, decoder) \<Rightarrow>
     (case setBlock block (\<lambda>b. b\<lparr>weak := v\<rparr>) h of h \<Rightarrow>
     (case decodeString decoder of
        (Inl err, _) \<Rightarrow> (Some err, h)
      | (Inr v, decoder) \<Rightarrow>
          (None, setBlock block (\<lambda>b. b\<lparr>Block.strong := v\<rparr>) h)))))))"

text \<open>
  \<open>Block.GobEncode\<close>: the blob and the error. The source tests \<open>err\<close> after each of the
  four \<open>EncodeValue\<close> calls but assigns it only at the first two.
\<close>

definition Block_GobEncode :: "Block \<Rightarrow> gobValue list \<times> error option" where
  "Block_GobEncode block =
     (case EncodeValue [] (GobInt gobNodeVersion) of
        (_, Some err) \<Rightarrow> ([], Some err)
      | (buffer, None) \<Rightarrow>
     (case EncodeValue buffer (GobInt (position block)) of
        (_, Some err) \<Rightarrow> ([], Some err)
      | (buffer, None) \<Rightarrow>
     (case EncodeValue buffer (GobInt (weak block)) of
        (buffer, _) \<Rightarrow>
     (case EncodeValue buffer (GobString (Block.strong block)) of
        (buffer, _) \<Rightarrow> (buffer, None)))))"

text \<open>
  Decoding a \<open>[]*Block\<close>: for each blob a new Block, decoded by its own \<open>GobDecode\<close>;
  the first error ends the decoding.
\<close>

fun decodeBlockPtrs :: "gobValue list list \<Rightarrow> heap \<Rightarrow> (error + ref list) \<times> heap" where
  "decodeBlockPtrs [] h = (Inr [], h)"
| "decodeBlockPtrs (blob # blobs) h =
     (case newBlock h of
        (r, h) \<Rightarrow>
          (case Block_GobDecode blob r h of
             (Some err, h) \<Rightarrow> (Inl err, h)
           | (None, h) \<Rightarrow>
               (case decodeBlockPtrs blobs h of
                  (Inl err, h) \<Rightarrow> (Inl err, h)
                | (Inr rs, h) \<Rightarrow> (Inr (r # rs), h))))"

text \<open>\<open>File.GobDecode\<close>, on the File at \<open>file\<close>.\<close>

definition File_GobDecode :: "gobValue list \<Rightarrow> ref \<Rightarrow> heap \<Rightarrow> error option \<times> heap" where
  "File_GobDecode buf file h =
     (case checkVersion buf of
        (Some err, _) \<Rightarrow> (Some err, h)
      | (None, decoder) \<Rightarrow>
     (case decodeString decoder of
        (Inl err, _) \<Rightarrow> (Some err, h)
      | (Inr v, decoder) \<Rightarrow>
     (case setFile file (\<lambda>f. f\<lparr>File.name := v\<rparr>) h of h \<Rightarrow>
     (case decodeUint decoder of
        (Inl err, _) \<Rightarrow> (Some err, h)
      | (Inr v, decoder) \<Rightarrow>
     (case setFile file (\<lambda>f. f\<lparr>File.mode := v\<rparr>) h of h \<Rightarrow>
     (case decodeString decoder of
        (Inl err, _) \<Rightarrow> (Some err, h)
      | (Inr v, decoder) \<Rightarrow>
     (case setFile file (\<lambda>f. f\<lparr>File.strong := v\<rparr>) h of h \<Rightarrow>
     (case decodeInt decoder of
        (Inl err, _) \<Rightarrow> (Some err, h)
      | (Inr v, decoder) \<Rightarrow>
     (case setFile file (\<lambda>f. f\<lparr>Size := v\<rparr>) h of h \<Rightarrow>
     (case decodeSlice decoder of
        (Inl err, _) \<Rightarrow> (Some err, h)
      | (Inr blobs, decoder) \<Rightarrow>
     (case decodeBlockPtrs blobs h of
        (Inl err, h) \<Rightarrow> (Some err, h)
      | (Inr rs, h) \<Rightarrow>
     (case setFile file (\<lambda>f. f\<lparr>Blocks := rs\<rparr>) h of h \<Rightarrow>
        (None,
         fold (\<lambda>block. setBlock block (\<lambda>b. b\<lparr>Block.parent := Some file\<rparr>))
           (fileBlocks h file) h)))))))))))))"

text \<open>Decoding a \<open>[]*File\<close>.\<close>

fun decodeFilePtrs :: "gobValue list list \<Rightarrow> heap \<Rightarrow> (error + ref list) \<times> heap" where
  "decodeFilePtrs [] h = (Inr [], h)"
| "decodeFilePtrs (blob # blobs) h =
     (case newFile h of
        (r, h) \<Rightarrow>
          (case File_GobDecode blob r h of
             (Some err, h) \<Rightarrow> (Inl err, h)
           | (None, h) \<Rightarrow>
               (case decodeFilePtrs blobs h of
                  (Inl err, h) \<Rightarrow> (Inl err, h)
                | (Inr rs, h) \<Rightarrow> (Inr (r # rs), h))))"

text \<open>What a decoder leaves of its stream is no larger than the stream.\<close>

lemma decodeInt_rest: "(r, d') = decodeInt d \<Longrightarrow> size_list size d' \<le> size_list size d"
  by (cases d rule: decodeInt.cases) auto

lemma decodeUint_rest: "(r, d') = decodeUint d \<Longrightarrow> size_list size d' \<le> size_list size d"
  by (cases d rule: decodeUint.cases) auto

lemma decodeString_rest: "(r, d') = decodeString d \<Longrightarrow> size_list size d' \<le> size_list size d"
  by (cases d rule: decodeString.cases) auto

lemma decodeSlice_blobs:
  "(Inr blobs, d') = decodeSlice d \<Longrightarrow> size_list (size_list size) blobs < size_list size d"
  by (cases d rule: decodeSlice.cases) auto

lemma checkVersion_rest: "(r, d') = checkVersion d \<Longrightarrow> size_list size d' \<le> size_list size d"
  by (auto simp: checkVersion_def Let_def split: prod.splits if_splits dest: decodeInt_rest [OF sym])

text \<open>
  \<open>Dir.GobDecode\<close>, on the Dir at \<open>dir\<close>, and the decoding of a \<open>[]*Dir\<close>, which calls it
  for each element.
\<close>

function Dir_GobDecode :: "gobValue list \<Rightarrow> ref \<Rightarrow> heap \<Rightarrow> error option \<times> heap"
  and decodeDirPtrs :: "gobValue list list \<Rightarrow> heap \<Rightarrow> (error + ref list) \<times> heap"
where
  "Dir_GobDecode buf dir h =
     (case checkVersion buf of
        (Some err, _) \<Rightarrow> (Some err, h)
      | (None, decoder) \<Rightarrow>
     (case decodeString decoder of
        (Inl err, _) \<Rightarrow> (Some err, h)
      | (Inr v, decoder) \<Rightarrow>
     (case setDir dir (\<lambda>d. d\<lparr>Dir.name := v\<rparr>) h of h \<Rightarrow>
     (case decodeUint decoder of
        (Inl err, _) \<Rightarrow> (Some err, h)
      | (Inr v, decoder) \<Rightarrow>
     (case setDir dir (\<lambda>d. d\<lparr>Dir.mode := v\<rparr>) h of h \<Rightarrow>
     (case decodeString decoder of
        (Inl err, _) \<Rightarrow> (Some err, h)
      | (Inr v, decoder) \<Rightarrow>
     (case setDir dir (\<lambda>d. d\<lparr>Dir.strong := v\<rparr>) h of h \<Rightarrow>
     (case decodeSlice decoder of
        (Inl err, _) \<Rightarrow> (Some err, h)
      | (Inr blobs, decoder) \<Rightarrow>
     (case decodeDirPtrs blobs h of
        (Inl err, h) \<Rightarrow> (Some err, h)
      | (Inr rs, h) \<Rightarrow>
     (case setDir dir (\<lambda>d. d\<lparr>SubDirs := rs\<rparr>) h of h \<Rightarrow>
     (case decodeSlice decoder of
        (Inl err, _) \<Rightarrow> (Some err, h)
      | (Inr blobs, decoder) \<Rightarrow>
     (case decodeFilePtrs blobs h of
        (Inl err, h) \<Rightarrow> (Some err, h)
      | (Inr rs, h) \<Rightarrow>
     (case setDir dir (\<lambda>d. d\<lparr>Files := rs\<rparr>) h of h \<Rightarrow>
     (case fold (\<lambda>file. setFile file (\<lambda>f. f\<lparr>File.parent := Some dir\<rparr>)) (dirFiles h dir) h of h \<Rightarrow>
        (None,
         fold (\<lambda>subdir. setDir subdir (\<lambda>d. d\<lparr>Dir.parent := Some dir\<rparr>))
           (dirSubDirs h dir) h)))))))))))))))"
| "decodeDirPtrs [] h = (Inr [], h)"
| "decodeDirPtrs (blob # blobs) h =
     (case newDir h of
        (r, h) \<Rightarrow>
          (case Dir_GobDecode blob r h of
             (Some err, h) \<Rightarrow> (Inl err, h)
           | (None, h) \<Rightarrow>
               (case decodeDirPtrs blobs h of
                  (Inl err, h) \<Rightarrow> (Inl err, h)
                | (Inr rs, h) \<Rightarrow> (Inr (r # rs), h))))"
  by pat_completeness auto
termination
  apply (relation "measure (\<lambda>x. case x of Inl (buf, _, _) \<Rightarrow> size_list size buf
                                         | Inr (blobs, _) \<Rightarrow> size_list (size_list size) blobs)")
  apply simp_all
  apply (auto dest!: checkVersion_rest decodeString_rest decodeUint_rest decodeSlice_blobs)
  done

declare Dir_GobDecode.simps [simp del]

text \<open>
  Blobs and a store of nodes for concrete runs of the decoders: the store holds a zero
  File and a zero Dir at address 0, the targets of the decoding.
\<close>

definition exampleBlockBlob :: "gobValue list" where
  "exampleBlockBlob = [GobInt 1, GobInt 0, GobInt 5, GobString ''B'']"

definition exampleFileBlob :: "gobValue list" where
  "exampleFileBlob =
     [GobInt 1, GobString ''a.txt'', GobUint 420, GobString ''F'', GobInt 8192,
      GobSlice [exampleBlockBlob]]"

definition exampleDirBlob :: "gobValue list" where
  "exampleDirBlob =
     [GobInt 1, GobString ''d'', GobUint 493, GobString ''D'',
      GobSlice [[GobInt 1, GobString ''sub'', GobUint 493, GobString ''S'', GobSlice [],
                 GobSlice []]],
      GobSlice [exampleFileBlob]]"

definition exampleHeap :: heap where
  "exampleHeap =
     \<lparr>blockAt = [0 \<mapsto> \<lparr>position = 7, weak = 8, Block.strong = ''old'', Block.parent = Some 0\<rparr>],
      fileAt = [0 \<mapsto> \<lparr>File.name = [], File.mode = 0, File.strong = [], Size = 0, Blocks = [],
                       File.parent = None\<rparr>],
      dirAt = [0 \<mapsto> \<lparr>Dir.name = [], Dir.mode = 0, Dir.strong = [], SubDirs = [], Files = [],
                      Dir.parent = None\<rparr>],
      nextRef = 1\<rparr>"

section \<open>The weak rolling checksum\<close>

text \<open>
  The class \<open>WeakChecksum\<close> of the C++ header: the two \<open>int\<close> members \<open>a\<close> and \<open>b\<close> as
  32-bit words, \<open>char\<close> as a signed byte widened to \<open>int\<close>, \<open>BLOCKSIZE\<close> the 8192 of
  the header.
\<close>

datatype WeakChecksum = WeakChecksum "32 word" "32 word"


fun roll :: "8 word \<Rightarrow> 8 word \<Rightarrow> WeakChecksum \<Rightarrow> WeakChecksum" where
  "roll removedByte newByte (WeakChecksum sa sb) =
     (let sa = sa - (scast removedByte - scast newByte);
          sb = sb - (scast removedByte * of_int BLOCKSIZE - sa)
      in WeakChecksum sa sb)"

text \<open>
  Modelled from the spec: \<open>WeakChecksum::update(len, buf)\<close> is declared in the header
  and has no body in the source files. In the spec, \<open>update\<close> initialises both
  accumulators from a full buffer in one pass: \<open>a\<close> is the sum of the bytes of the
  window and \<open>b\<close> a position-weighted sum, the two sums that \<open>roll\<close> then maintains as
  the window slides. The weights are the ones for which \<open>roll\<close> does so: of \<open>len\<close>
  bytes, the byte at index \<open>i\<close>, counted from 0, enters \<open>b\<close> \<open>len - i\<close> times. The loop
  carries \<open>len\<close>, \<open>i\<close>, the bytes from index \<open>i\<close> on and the checksum.
\<close>

fun update_loop :: "32 word \<Rightarrow> 32 word \<Rightarrow> byte list \<Rightarrow> WeakChecksum \<Rightarrow> WeakChecksum" where
  "update_loop len i [] w = w"
| "update_loop len i (x # rest) (WeakChecksum sa sb) =
     update_loop len (i + 1) rest (WeakChecksum (sa + scast x) (sb + (len - i) * scast x))"

definition update :: "byte list \<Rightarrow> WeakChecksum" where
  "update buf = update_loop (of_nat (length buf)) 0 buf (WeakChecksum 0 0)"



section \<open>Relative paths\<close>

lemma strings_Replace1_at_start:
  "take (length old) s = old \<Longrightarrow> strings_Replace1 s old new = new @ drop (length old) s"
  by (cases s) auto

lemma strings_Replace1_prefix:
  "strings_Replace1 (old @ rest) old new = new @ rest"
  by (simp add: strings_Replace1_at_start)

lemma strings_TrimLeft_no_leading:
  "strings_TrimLeft s cutset = [] \<or> hd (strings_TrimLeft s cutset) \<notin> set cutset"
  unfolding strings_TrimLeft_def
  by (metis (mono_tags, lifting) hd_dropWhile)

lemma RelPath_rooted:
  "RelPath store (rootPath store @ rest) = dropWhile (\<lambda>c. c = CHR ''/'' \<or> c = CHR 0x5C) rest"
proof -
  have "set separators = {CHR ''/'', CHR 0x5C}"
    by (simp add: separators_def)
  then have "(\<lambda>c. c \<in> set separators) = (\<lambda>c. c = CHR ''/'' \<or> c = CHR 0x5C)"
    by auto
  then show ?thesis
    by (simp add: RelPath_def RootPath_def strings_Replace1_prefix strings_TrimLeft_def)
qed

text \<open>
  C9, as stated, at a concrete input: a store rooted at \<open>.\<close> and the full path
  \<open>a.txt\<close>, which is what \<open>Join\<close> makes of the root and the file name. The path does
  not begin with the root, \<open>strings.Replace\<close> removes the first \<open>.\<close> it finds, and
  \<open>RelPath\<close> gives \<open>atxt\<close>, which is not the path relative to the root.
\<close>

theorem RelPath_root_inside_path:
  "filepath_Join ''.'' ''a.txt'' = ''a.txt''
   \<and> RelPath \<lparr>rootPath = ''.'', index = None, relocs = Map.empty\<rparr> ''a.txt'' = ''atxt''
   \<and> ''atxt'' \<noteq> ''a.txt''"
  by (simp add: filepath_Join_def filepath_Clean_def RelPath_def RootPath_def
        strings_TrimLeft_def separators_def)

text \<open>
  C9, amended. For a full path that begins with the store root, \<open>RelPath\<close> is exactly
  what is left after the root and then all leading slashes and backslashes are
  removed; and for every full path the result has no leading slash or backslash.
\<close>

theorem RelPath_strips_root:
  "RelPath store (rootPath store @ rest)
     = dropWhile (\<lambda>c. c = CHR ''/'' \<or> c = CHR 0x5C) rest
   \<and> (RelPath store fullpath = []
        \<or> (hd (RelPath store fullpath) \<noteq> CHR ''/'' \<and> hd (RelPath store fullpath) \<noteq> CHR 0x5C))"
proof
  show "RelPath store (rootPath store @ rest)
          = dropWhile (\<lambda>c. c = CHR ''/'' \<or> c = CHR 0x5C) rest"
    by (rule RelPath_rooted)
  have "RelPath store fullpath
          = strings_TrimLeft (strings_Replace1 fullpath (rootPath store) []) separators"
    by (simp add: RelPath_def RootPath_def)
  with strings_TrimLeft_no_leading
    [of "strings_Replace1 fullpath (rootPath store) []" separators]
  show "RelPath store fullpath = []
          \<or> (hd (RelPath store fullpath) \<noteq> CHR ''/'' \<and> hd (RelPath store fullpath) \<noteq> CHR 0x5C)"
    by (auto simp: separators_def)
qed

theorem RelPath_strips_root_witness:
  "RelPath \<lparr>rootPath = ''/tmp/store'', index = None, relocs = Map.empty\<rparr>
       (''/tmp/store'' @ ''//a/b.txt'') = ''a/b.txt''
   \<and> RelPath \<lparr>rootPath = ''/tmp/store'', index = None, relocs = Map.empty\<rparr> ''/tmp/store/x''
       = ''x''"
  using RelPath_strips_root
    [of "\<lparr>rootPath = ''/tmp/store'', index = None, relocs = Map.empty\<rparr>" "''//a/b.txt''"
        "''/tmp/store/x''"]
  by (simp add: RelPath_def RootPath_def strings_TrimLeft_def separators_def)

section \<open>Relocation\<close>

text \<open>
  C8, as stated, at a concrete input: a store rooted at \<open>./store\<close>. \<open>TempFile\<close> joins
  the root and the new name, so the name it gives is clean, as \<open>store/_reloc1\<close>.
  \<open>Relocate\<close> of \<open>./store/a.txt\<close> succeeds and records \<open>a.txt\<close> with
  \<open>store/_reloc1\<close>, in which \<open>RelPath\<close> found no root to remove; resolving
  \<open>RelPath(fullpath)\<close> then gives \<open>store/store/_reloc1\<close>, not the path the file was
  moved to.
\<close>

theorem Resolve_after_Relocate_unclean_root:
  "filepath_Join ''./store'' ''_reloc1'' = ''store/_reloc1''
   \<and> Relocate \<lparr>tempFile = Inr ''store/_reloc1'', closeErr = None, removeErr = None,
                moveErr = None\<rparr>
        \<lparr>rootPath = ''./store'', index = None, relocs = Map.empty\<rparr> ''./store/a.txt''
      = ((''store/_reloc1'', None),
         \<lparr>rootPath = ''./store'', index = None, relocs = [''a.txt'' \<mapsto> ''store/_reloc1'']\<rparr>)
   \<and> Resolve filepath_Join
        \<lparr>rootPath = ''./store'', index = None, relocs = [''a.txt'' \<mapsto> ''store/_reloc1'']\<rparr>
        (RelPath
          \<lparr>rootPath = ''./store'', index = None, relocs = [''a.txt'' \<mapsto> ''store/_reloc1'']\<rparr>
          ''./store/a.txt'')
      = ''store/store/_reloc1''
   \<and> ''store/store/_reloc1'' \<noteq> ''store/_reloc1''"
  by (simp add: filepath_Join_def filepath_Clean_def Relocate_def Resolve_def RelPath_def
        RootPath_def strings_TrimLeft_def separators_def)

text \<open>
  C8, amended. \<open>Resolve\<close> joins the root with the relocated relative path when the
  table has an entry for the relative path, and with the relative path itself
  otherwise. A \<open>Relocate\<close> that returns without error has added to the table exactly
  the entry from \<open>RelPath(fullpath)\<close> to \<open>RelPath(relocFullpath)\<close>, where
  \<open>relocFullpath\<close> is the name \<open>TempFile\<close> gave, so that resolving \<open>RelPath(fullpath)\<close>
  afterwards gives the root joined with the relocated relative path. That is
  \<open>relocFullpath\<close> itself when \<open>relocFullpath\<close> is the root, a slash and a name with no
  leading separator, and \<open>Join\<close> of the root and that name is \<open>relocFullpath\<close>.
\<close>

theorem Resolve_after_Relocate:
  "Resolve join store relpath
     = join (rootPath store)
         (case relocs store relpath of Some relocPath \<Rightarrow> relocPath | None \<Rightarrow> relpath)
   \<and> (Relocate io store fullpath = ((relocFullpath, None), store') \<longrightarrow>
        tempFile io = Inr relocFullpath
        \<and> relocs store' = (relocs store)(RelPath store fullpath \<mapsto> RelPath store relocFullpath)
        \<and> rootPath store' = rootPath store
        \<and> index store' = index store
        \<and> Resolve join store' (RelPath store' fullpath)
            = join (rootPath store) (RelPath store relocFullpath)
        \<and> (relocFullpath = rootPath store @ CHR ''/'' # nm
             \<and> dropWhile (\<lambda>c. c = CHR ''/'' \<or> c = CHR 0x5C) nm = nm
             \<and> join (rootPath store) nm = relocFullpath \<longrightarrow>
            Resolve join store' (RelPath store' fullpath) = relocFullpath))"
proof
  show "Resolve join store relpath
     = join (rootPath store)
         (case relocs store relpath of Some relocPath \<Rightarrow> relocPath | None \<Rightarrow> relpath)"
    by (simp add: Resolve_def RootPath_def)
  show "Relocate io store fullpath = ((relocFullpath, None), store') \<longrightarrow>
        tempFile io = Inr relocFullpath
        \<and> relocs store' = (relocs store)(RelPath store fullpath \<mapsto> RelPath store relocFullpath)
        \<and> rootPath store' = rootPath store
        \<and> index store' = index store
        \<and> Resolve join store' (RelPath store' fullpath)
            = join (rootPath store) (RelPath store relocFullpath)
        \<and> (relocFullpath = rootPath store @ CHR ''/'' # nm
             \<and> dropWhile (\<lambda>c. c = CHR ''/'' \<or> c = CHR 0x5C) nm = nm
             \<and> join (rootPath store) nm = relocFullpath \<longrightarrow>
            Resolve join store' (RelPath store' fullpath) = relocFullpath)"
  proof
    assume run: "Relocate io store fullpath = ((relocFullpath, None), store')"
    then have t: "tempFile io = Inr relocFullpath"
      and st: "store' = store\<lparr>relocs := (relocs store)(RelPath store fullpath
                                  \<mapsto> RelPath store relocFullpath)\<rparr>"
      by (auto simp: Relocate_def Let_def split: sum.splits option.splits)
    from st have same: "RelPath store' fullpath = RelPath store fullpath"
      by (simp add: RelPath_def RootPath_def)
    from st have res: "Resolve join store' (RelPath store' fullpath)
                         = join (rootPath store) (RelPath store relocFullpath)"
      unfolding same by (simp add: Resolve_def RootPath_def)
    have "Resolve join store' (RelPath store' fullpath) = relocFullpath"
      if nm: "relocFullpath = rootPath store @ CHR ''/'' # nm"
        "dropWhile (\<lambda>c. c = CHR ''/'' \<or> c = CHR 0x5C) nm = nm"
        "join (rootPath store) nm = relocFullpath"
    proof -
      have "RelPath store relocFullpath = nm"
        unfolding nm(1) RelPath_rooted using nm(2) by simp
      with res nm(3) show ?thesis by simp
    qed
    with t st res show "tempFile io = Inr relocFullpath
        \<and> relocs store' = (relocs store)(RelPath store fullpath \<mapsto> RelPath store relocFullpath)
        \<and> rootPath store' = rootPath store
        \<and> index store' = index store
        \<and> Resolve join store' (RelPath store' fullpath)
            = join (rootPath store) (RelPath store relocFullpath)
        \<and> (relocFullpath = rootPath store @ CHR ''/'' # nm
             \<and> dropWhile (\<lambda>c. c = CHR ''/'' \<or> c = CHR 0x5C) nm = nm
             \<and> join (rootPath store) nm = relocFullpath \<longrightarrow>
            Resolve join store' (RelPath store' fullpath) = relocFullpath)"
      by simp
  qed
qed

theorem Resolve_after_Relocate_witness:
  "Relocate \<lparr>tempFile = Inr ''/tmp/store/_reloc123'', closeErr = None, removeErr = None,
              moveErr = None\<rparr>
       \<lparr>rootPath = ''/tmp/store'', index = None, relocs = Map.empty\<rparr> ''/tmp/store/a/b.txt''
     = ((''/tmp/store/_reloc123'', None),
        \<lparr>rootPath = ''/tmp/store'', index = None, relocs = [''a/b.txt'' \<mapsto> ''_reloc123'']\<rparr>)
   \<and> filepath_Join ''/tmp/store'' ''_reloc123'' = ''/tmp/store/_reloc123''
   \<and> Resolve filepath_Join
        \<lparr>rootPath = ''/tmp/store'', index = None, relocs = [''a/b.txt'' \<mapsto> ''_reloc123'']\<rparr>
        ''a/b.txt''
     = ''/tmp/store/_reloc123''"
proof -
  let ?io = "\<lparr>tempFile = Inr ''/tmp/store/_reloc123'', closeErr = None, removeErr = None,
              moveErr = None\<rparr>"
  let ?s = "\<lparr>rootPath = ''/tmp/store'', index = None, relocs = Map.empty\<rparr>"
  let ?s' = "\<lparr>rootPath = ''/tmp/store'', index = None, relocs = [''a/b.txt'' \<mapsto> ''_reloc123'']\<rparr>"
  have run: "Relocate ?io ?s ''/tmp/store/a/b.txt'' = ((''/tmp/store/_reloc123'', None), ?s')"
    by (simp add: Relocate_def RelPath_def RootPath_def strings_TrimLeft_def separators_def)
  have rp: "RelPath ?s' ''/tmp/store/a/b.txt'' = ''a/b.txt''"
    by (simp add: RelPath_def RootPath_def strings_TrimLeft_def separators_def)
  have name: "''/tmp/store/_reloc123'' = rootPath ?s @ CHR ''/'' # ''_reloc123''"
    "dropWhile (\<lambda>c. c = CHR ''/'' \<or> c = CHR 0x5C) ''_reloc123'' = ''_reloc123''"
    by simp_all
  have joined: "filepath_Join (rootPath ?s) ''_reloc123'' = ''/tmp/store/_reloc123''"
    by (simp add: filepath_Join_def filepath_Clean_def)
  from Resolve_after_Relocate
    [of filepath_Join ?s "''a/b.txt''" ?io "''/tmp/store/a/b.txt''"
        "''/tmp/store/_reloc123''" ?s' "''_reloc123''"] run name joined
  have "Resolve filepath_Join ?s' (RelPath ?s' ''/tmp/store/a/b.txt'') = ''/tmp/store/_reloc123''"
    by blast
  then have "Resolve filepath_Join ?s' ''a/b.txt'' = ''/tmp/store/_reloc123''"
    unfolding rp .
  with run joined show ?thesis by simp
qed

section \<open>Reads\<close>

text \<open>
  C2. When the store's index has no Block for a strong checksum, \<open>ReadBlock\<close> returns
  a not-found error (it returns; it does not panic). When the index has no File for
  a strong checksum, \<open>ReadInto\<close> returns the count 0 with a not-found error and
  leaves the writer as it was.
\<close>

theorem reads_of_unknown_checksum:
  assumes "index store = Some idx"
  shows "(StrongBlock idx strongSum = None \<longrightarrow>
            ReadBlock w store strongSum = Returns ([], Some (BlockNotFound strongSum)))
       \<and> (StrongFile idx strongSum = None \<longrightarrow>
            ReadInto w store strongSum from len writer
              = Returns ((0, Some (FileNotFound strongSum)), writer))"
  using assms by (simp add: ReadBlock_def ReadInto_def)

theorem reads_of_unknown_checksum_witness:
  "index exampleStore = Some \<lparr>blockMap = [''B'' \<mapsto> 0], fileMap = [''F'' \<mapsto> 0]\<rparr>
   \<and> ReadBlock exampleWorld exampleStore ''X'' = Returns ([], Some (BlockNotFound ''X''))
   \<and> ReadInto exampleWorld exampleStore ''X'' 0 10 \<lparr>accepted = [1, 2], room = None\<rparr>
       = Returns ((0, Some (FileNotFound ''X'')), \<lparr>accepted = [1, 2], room = None\<rparr>)"
  using reads_of_unknown_checksum
    [of exampleStore "\<lparr>blockMap = [''B'' \<mapsto> 0], fileMap = [''F'' \<mapsto> 0]\<rparr>" "''X''"
        exampleWorld 0 10 "\<lparr>accepted = [1, 2], room = None\<rparr>"]
  by (simp add: exampleStore_def StrongBlock_def StrongFile_def)

lemma ReadInto_found:
  assumes "index store = Some idx" and "StrongFile idx strongSum = Some file"
  shows "ReadInto w store strongSum from len writer =
     (case disk w (Resolve (Join w) store (nodeRelPath w file)) of
        None \<Rightarrow> Returns ((0, Some (OSError (Resolve (Join w) store (nodeRelPath w file)))), writer)
      | Some bs \<Rightarrow>
          if from < 0 then Returns ((0, Some (OSError ''seek'')), writer)
          else (case Write writer (take (nat len) (drop (nat from) bs)) of
                  ((nw, Some ew), writer') \<Rightarrow> Returns ((int nw, Some ew), writer')
                | ((nw, None), writer') \<Rightarrow>
                    Returns ((int nw, if int nw < len then Some EOF else None), writer')))"
  using assms
  by (simp add: ReadInto_def os_Open_def Seek_def io_CopyN_def Let_def
      split: option.splits prod.splits)


lemma exampleStore_index:
  "index exampleStore = Some \<lparr>blockMap = [''B'' \<mapsto> 0], fileMap = [''F'' \<mapsto> 0]\<rparr>"
  "StrongFile \<lparr>blockMap = [''B'' \<mapsto> 0], fileMap = [''F'' \<mapsto> 0]\<rparr> ''F'' = Some 0"
  "StrongBlock \<lparr>blockMap = [''B'' \<mapsto> 0], fileMap = [''F'' \<mapsto> 0]\<rparr> ''B'' = Some 0"
  by (simp_all add: exampleStore_def StrongFile_def StrongBlock_def)

lemma example_path:
  "Resolve (Join exampleWorld) exampleStore (nodeRelPath exampleWorld 0) = ''/tmp/store/a.txt''"
  by (simp add: Resolve_def exampleWorld_def exampleStore_def RootPath_def
        filepath_Join_def filepath_Clean_def)

lemma example_disk:
  "disk exampleWorld ''/tmp/store/a.txt'' = Some (replicate 8192 7)"
  by (simp add: exampleWorld_def)

lemma example_ReadInto_whole:
  "ReadInto exampleWorld exampleStore ''F'' 0 8192 bytes_Buffer
     = Returns ((8192, None), \<lparr>accepted = replicate 8192 7, room = None\<rparr>)"
  by (simp add: ReadInto_found [OF exampleStore_index(1) exampleStore_index(2)]
        example_path example_disk Write_def bytes_Buffer_def)




text \<open>
  What \<open>ReadBlock\<close> makes of the delegated read, for any indexed Block: when
  \<open>ReadInto\<close> reports no error the bytes are dropped, and when it reports an error
  the bytes read so far are returned and the error is dropped.
\<close>

lemma ReadBlock_of_delegated_read:
  assumes "index store = Some idx"
    and "StrongBlock idx strongSum = Some blockRef"
    and "blockAt (nodes w) blockRef = Some block"
    and "Block.parent block = Some fileRef"
    and "fileAt (nodes w) fileRef = Some f"
    and "ReadInto w store (File.strong f) (Offset block) BLOCKSIZE bytes_Buffer
           = Returns ((n, err), buf)"
  shows "ReadBlock w store strongSum
           = Returns (if err = None then ([], None) else (Bytes buf, None))"
  using assms by (simp add: ReadBlock_def)

text \<open>
  C1, at a concrete input. The index maps \<open>B\<close> to the first Block of the File \<open>F\<close>,
  whose file on disk has 8192 bytes. The delegated \<open>ReadInto\<close> for that block reads
  all 8192 bytes with no error, and \<open>ReadBlock\<close> returns no bytes and no error.
\<close>

theorem ReadBlock_loses_successful_read:
  "ReadInto exampleWorld exampleStore ''F'' 0 8192 bytes_Buffer
     = Returns ((8192, None), \<lparr>accepted = replicate 8192 7, room = None\<rparr>)
   \<and> ReadBlock exampleWorld exampleStore ''B'' = Returns ([], None)"
proof -
  have nodes: "blockAt (nodes exampleWorld) 0
                 = Some \<lparr>position = 0, weak = 0, Block.strong = ''B'', Block.parent = Some 0\<rparr>"
    "fileAt (nodes exampleWorld) 0
       = Some \<lparr>File.name = ''a.txt'', File.mode = 420, File.strong = ''F'', Size = 8192,
               Blocks = [0], File.parent = None\<rparr>"
    by (simp_all add: exampleWorld_def exampleNodes_def)
  have "ReadBlock exampleWorld exampleStore ''B'' = Returns ([], None)"
    by (simp add: ReadBlock_def exampleStore_index nodes Offset_def BLOCKSIZE_def
          example_ReadInto_whole)
  with example_ReadInto_whole show ?thesis by simp
qed


section \<open>The store factory\<close>

text \<open>
  C10. In the two-variant \<open>NewLocalStore\<close>, when \<open>os.Stat\<close> succeeds and the entry is
  neither a directory nor a regular file, no store is constructed and the call of
  \<open>reindex\<close> on the nil store panics: the factory does not return.
\<close>

theorem NewLocalStore_nil_store_panics:
  assumes "os_Stat root = Inr rootInfo"
    and "\<not> IsDirectory rootInfo"
    and "\<not> IsRegular rootInfo"
  shows "NewLocalStore ix os_Stat root = Panics"
  using assms by (simp add: NewLocalStore_def)

theorem NewLocalStore_nil_store_panics_witness:
  "NewLocalStore
     \<lparr>IndexDir = (\<lambda>_. None), IndexFile = (\<lambda>_. (None, None)),
      IndexBlocks = (\<lambda>_. \<lparr>blockMap = Map.empty, fileMap = Map.empty\<rparr>)\<rparr>
     (\<lambda>_. Inr \<lparr>IsDirectory = False, IsRegular = False\<rparr>) ''/dev/null''
   = Panics"
  using NewLocalStore_nil_store_panics
    [of "\<lambda>_. Inr \<lparr>IsDirectory = False, IsRegular = False\<rparr>" "''/dev/null''"
        "\<lparr>IsDirectory = False, IsRegular = False\<rparr>"]
  by simp



lemma checkVersion_tag:
  "checkVersion (GobInt v # rest)
     = (if v \<noteq> gobNodeVersion then Some (VersionMismatch gobNodeVersion v) else None, rest)"
  by (simp add: checkVersion_def)

section \<open>The node codec: versions\<close>

text \<open>
  C4. A blob whose leading version tag is not \<open>gobNodeVersion\<close> (which is 1) makes
  \<open>GobDecode\<close> of a Block, of a File and of a Dir return the version mismatch error,
  and the store of nodes, so every field of the target, is as it was.
\<close>

theorem GobDecode_version_mismatch:
  assumes "v \<noteq> gobNodeVersion"
  shows "gobNodeVersion = 1
       \<and> Block_GobDecode (GobInt v # rest) block h = (Some (VersionMismatch gobNodeVersion v), h)
       \<and> File_GobDecode (GobInt v # rest) file h = (Some (VersionMismatch gobNodeVersion v), h)
       \<and> Dir_GobDecode (GobInt v # rest) dir h = (Some (VersionMismatch gobNodeVersion v), h)"
  using assms
  by (simp add: gobNodeVersion_def Block_GobDecode_def File_GobDecode_def checkVersion_tag
        Dir_GobDecode.simps)

theorem GobDecode_version_mismatch_witness:
  "Block_GobDecode (GobInt 2 # tl exampleBlockBlob) 0 exampleHeap
     = (Some (VersionMismatch 1 2), exampleHeap)
   \<and> File_GobDecode (GobInt 2 # tl exampleFileBlob) 0 exampleHeap
     = (Some (VersionMismatch 1 2), exampleHeap)
   \<and> Dir_GobDecode (GobInt 2 # tl exampleDirBlob) 0 exampleHeap
     = (Some (VersionMismatch 1 2), exampleHeap)"
proof -
  have "(2::int) \<noteq> gobNodeVersion"
    by (simp add: gobNodeVersion_def)
  from GobDecode_version_mismatch [OF this] show ?thesis
    by (simp add: gobNodeVersion_def)
qed

section \<open>The node codec: Block round trip\<close>

text \<open>
  C6. \<open>GobEncode\<close> of a Block returns without error a blob that begins with the
  integer version tag, followed by the position, the weak and the strong checksum;
  \<open>GobDecode\<close> of that blob into any Block succeeds and sets exactly these three
  fields to the encoded Block's.
\<close>

theorem Block_gob_roundtrip:
  assumes "blockAt h r = Some target"
  shows "Block_GobEncode b
           = ([GobInt gobNodeVersion, GobInt (position b), GobInt (weak b),
               GobString (Block.strong b)], None)
       \<and> Block_GobDecode (fst (Block_GobEncode b)) r h
           = (None, h\<lparr>blockAt := (blockAt h)(r \<mapsto>
                 target\<lparr>position := position b, weak := weak b,
                        Block.strong := Block.strong b\<rparr>)\<rparr>)"
  using assms
  by (simp add: Block_GobEncode_def EncodeValue_def Block_GobDecode_def checkVersion_tag
        setBlock_def)

theorem Block_gob_roundtrip_witness:
  "Block_GobEncode \<lparr>position = 0, weak = 5, Block.strong = ''B'', Block.parent = None\<rparr>
     = (exampleBlockBlob, None)
   \<and> fst (Block_GobDecode exampleBlockBlob 0 exampleHeap) = None
   \<and> blockAt (snd (Block_GobDecode exampleBlockBlob 0 exampleHeap)) 0
       = Some \<lparr>position = 0, weak = 5, Block.strong = ''B'', Block.parent = Some 0\<rparr>"
proof -
  have a: "blockAt exampleHeap 0
             = Some \<lparr>position = 7, weak = 8, Block.strong = ''old'', Block.parent = Some 0\<rparr>"
    by (simp add: exampleHeap_def)
  let ?b = "\<lparr>position = 0, weak = 5, Block.strong = ''B'', Block.parent = None\<rparr>"
  from Block_gob_roundtrip [OF a, of ?b]
  have enc: "Block_GobEncode ?b
               = ([GobInt gobNodeVersion, GobInt (position ?b), GobInt (weak ?b),
                   GobString (Block.strong ?b)], None)"
    and dec: "Block_GobDecode (fst (Block_GobEncode ?b)) 0 exampleHeap
           = (None, exampleHeap\<lparr>blockAt := (blockAt exampleHeap)(0 \<mapsto>
                 \<lparr>position = 7, weak = 8, Block.strong = ''old'', Block.parent = Some 0\<rparr>
                 \<lparr>position := position ?b, weak := weak ?b,
                  Block.strong := Block.strong ?b\<rparr>)\<rparr>)"
    by blast+
  have blob: "[GobInt gobNodeVersion, GobInt (position ?b), GobInt (weak ?b),
               GobString (Block.strong ?b)] = exampleBlockBlob"
    by (simp add: exampleBlockBlob_def gobNodeVersion_def)
  from dec enc show ?thesis
    unfolding enc blob by simp
qed

section \<open>The node codec: parents\<close>

lemma fold_setBlock_parent:
  "fold (\<lambda>r. setBlock r (\<lambda>b. b\<lparr>Block.parent := p\<rparr>)) rs h
     = h\<lparr>blockAt := (\<lambda>x. if x \<in> set rs then map_option (\<lambda>b. b\<lparr>Block.parent := p\<rparr>) (blockAt h x)
                           else blockAt h x)\<rparr>"
proof (induction rs arbitrary: h)
  case Nil
  show ?case by simp
next
  case (Cons r rs)
  show ?case
    by (simp add: Cons.IH) (auto simp: setBlock_def fun_eq_iff option.map_comp comp_def)
qed

lemma fold_setFile_parent:
  "fold (\<lambda>r. setFile r (\<lambda>f. f\<lparr>File.parent := p\<rparr>)) rs h
     = h\<lparr>fileAt := (\<lambda>x. if x \<in> set rs then map_option (\<lambda>f. f\<lparr>File.parent := p\<rparr>) (fileAt h x)
                           else fileAt h x)\<rparr>"
proof (induction rs arbitrary: h)
  case Nil
  show ?case by simp
next
  case (Cons r rs)
  show ?case
    by (simp add: Cons.IH) (auto simp: setFile_def fun_eq_iff option.map_comp comp_def)
qed

lemma fold_setDir_parent:
  "fold (\<lambda>r. setDir r (\<lambda>d. d\<lparr>Dir.parent := p\<rparr>)) rs h
     = h\<lparr>dirAt := (\<lambda>x. if x \<in> set rs then map_option (\<lambda>d. d\<lparr>Dir.parent := p\<rparr>) (dirAt h x)
                           else dirAt h x)\<rparr>"
proof (induction rs arbitrary: h)
  case Nil
  show ?case by simp
next
  case (Cons r rs)
  show ?case
    by (simp add: Cons.IH) (auto simp: setDir_def fun_eq_iff option.map_comp comp_def)
qed

text \<open>What Block.GobDecode can change: the one Block, and never its parent.\<close>

lemma Block_GobDecode_frame:
  assumes "Block_GobDecode buf r h = (e, h')"
  shows "fileAt h' = fileAt h" "dirAt h' = dirAt h" "nextRef h' = nextRef h"
    "dom (blockAt h') = dom (blockAt h)"
    "map_option Block.parent (blockAt h' r) = map_option Block.parent (blockAt h r)"
  using assms
  by (auto simp: Block_GobDecode_def setBlock_def option.map_comp comp_def
      split: prod.splits option.splits sum.splits if_splits)

lemma decodeBlockPtrs_frame:
  "decodeBlockPtrs blobs h = (res, h') \<Longrightarrow>
     fileAt h' = fileAt h \<and> dirAt h' = dirAt h \<and> dom (blockAt h) \<subseteq> dom (blockAt h')
     \<and> (\<forall>rs. res = Inr rs \<longrightarrow> set rs \<subseteq> dom (blockAt h'))"
proof (induction blobs arbitrary: h res h')
  case Nil
  then show ?case by auto
next
  case (Cons blob blobs)
  obtain r h1 where n: "newBlock h = (r, h1)" by (cases "newBlock h")
  obtain e h2 where d: "Block_GobDecode blob r h1 = (e, h2)" by (cases "Block_GobDecode blob r h1")
  from n have n': "fileAt h1 = fileAt h" "dirAt h1 = dirAt h" "dom (blockAt h1) = insert r (dom (blockAt h))"
    by (auto simp: newBlock_def)
  note f = Block_GobDecode_frame [OF d]
  show ?case
  proof (cases e)
    case (Some err)
    with Cons.prems n d n' f show ?thesis by auto
  next
    case None
    obtain res3 h3 where p: "decodeBlockPtrs blobs h2 = (res3, h3)"
      by (cases "decodeBlockPtrs blobs h2")
    from Cons.IH [OF p] Cons.prems n d n' f None p show ?thesis
      by (auto split: sum.splits)
  qed
qed

lemma File_GobDecode_frame:
  assumes "File_GobDecode buf file h = (e, h')"
  shows "dirAt h' = dirAt h \<and> dom (fileAt h') = dom (fileAt h)"
  using assms
  by (auto simp: File_GobDecode_def setFile_def fold_setBlock_parent
      split: prod.splits option.splits sum.splits if_splits dest!: decodeBlockPtrs_frame)

lemma File_GobDecode_parents:
  assumes "File_GobDecode buf file h = (None, h')" and "fileAt h file = Some f"
  shows "\<exists>f'. fileAt h' file = Some f'
           \<and> (\<forall>b \<in> set (Blocks f'). \<exists>blk. blockAt h' b = Some blk \<and> Block.parent blk = Some file)"
  using assms
  apply (auto simp: File_GobDecode_def setFile_def fold_setBlock_parent fileBlocks_def
      split: prod.splits option.splits sum.splits if_splits dest!: decodeBlockPtrs_frame)
  apply (drule (1) subsetD)
  apply auto
  done


lemma decodeFilePtrs_frame:
  "decodeFilePtrs blobs h = (res, h') \<Longrightarrow>
     dirAt h' = dirAt h \<and> dom (fileAt h) \<subseteq> dom (fileAt h')
     \<and> (\<forall>rs. res = Inr rs \<longrightarrow> set rs \<subseteq> dom (fileAt h'))"
proof (induction blobs arbitrary: h res h')
  case Nil
  then show ?case by auto
next
  case (Cons blob blobs)
  obtain r h1 where n: "newFile h = (r, h1)" by (cases "newFile h")
  obtain e h2 where d: "File_GobDecode blob r h1 = (e, h2)" by (cases "File_GobDecode blob r h1")
  from n have n': "dirAt h1 = dirAt h" "dom (fileAt h1) = insert r (dom (fileAt h))"
    by (auto simp: newFile_def)
  note f = File_GobDecode_frame [OF d]
  show ?case
  proof (cases e)
    case (Some err)
    with Cons.prems n d n' f show ?thesis by auto
  next
    case None
    obtain res3 h3 where p: "decodeFilePtrs blobs h2 = (res3, h3)"
      by (cases "decodeFilePtrs blobs h2")
    from Cons.IH [OF p] Cons.prems n d n' f None p show ?thesis
      by (auto split: sum.splits)
  qed
qed

lemma setDir_dom: "dom (dirAt (setDir r f h)) = dom (dirAt h)"
  by (auto simp: setDir_def split: if_splits)

lemma Dir_GobDecode_frame:
  "\<forall>e h'. Dir_GobDecode buf dir h = (e, h') \<longrightarrow> dom (dirAt h) \<subseteq> dom (dirAt h')"
  "\<forall>res h2'. decodeDirPtrs blobs h2 = (res, h2') \<longrightarrow>
      dom (dirAt h2) \<subseteq> dom (dirAt h2') \<and> (\<forall>rs. res = Inr rs \<longrightarrow> set rs \<subseteq> dom (dirAt h2'))"
proof (induction buf dir h and blobs h2 rule: Dir_GobDecode_decodeDirPtrs.induct)
  case (1 buf dir h)
  note IH = "1.IH" [OF sym refl sym refl sym refl sym refl sym refl]
  show ?case
  proof (intro allI impI)
    fix e h'
    assume run: "Dir_GobDecode buf dir h = (e, h')"
    show "dom (dirAt h) \<subseteq> dom (dirAt h')"
    proof (cases "\<exists>y b ya ba yb bb yc blobs yd. checkVersion buf = (None, y)
              \<and> decodeString y = (Inr b, ya) \<and> decodeUint ya = (Inr ba, yb)
              \<and> decodeString yb = (Inr bb, yc) \<and> decodeSlice yc = (Inr blobs, yd)")
      case False
      with run have "dom (dirAt h') = dom (dirAt h)"
        by (subst (asm) Dir_GobDecode.simps)
          (auto simp: setDir_def split: prod.splits option.splits sum.splits if_splits)
      then show ?thesis by simp
    next
      case True
      then obtain y b ya ba yb bb yc blobs yd where s: "checkVersion buf = (None, y)"
        "decodeString y = (Inr b, ya)" "decodeUint ya = (Inr ba, yb)"
        "decodeString yb = (Inr bb, yc)" "decodeSlice yc = (Inr blobs, yd)"
        by blast
      let ?h3 = "setDir dir (Dir.strong_update (\<lambda>_. bb))
                (setDir dir (Dir.mode_update (\<lambda>_. ba))
                  (setDir dir (Dir.name_update (\<lambda>_. b)) h))"
      obtain res h4 where p: "decodeDirPtrs blobs ?h3 = (res, h4)"
        by (cases "decodeDirPtrs blobs ?h3")
      from IH [OF s] p have mono: "dom (dirAt ?h3) \<subseteq> dom (dirAt h4)"
        by blast
      have "dom (dirAt h4) \<subseteq> dom (dirAt h')"
        using run s p
        by (subst (asm) Dir_GobDecode.simps)
          (auto simp: setDir_dom setDir_def fold_setDir_parent fold_setFile_parent
             split: prod.splits option.splits sum.splits if_splits
             dest!: decodeFilePtrs_frame)
      with mono show ?thesis by (simp add: setDir_dom)
    qed
  qed
next
  case (2 h)
  show ?case by simp
next
  case (3 blob blobs h)
  obtain r h1 where n: "newDir h = (r, h1)" by (cases "newDir h")
  obtain e h2 where d: "Dir_GobDecode blob r h1 = (e, h2)" by (cases "Dir_GobDecode blob r h1")
  from n have n': "dom (dirAt h1) = insert r (dom (dirAt h))"
    by (auto simp: newDir_def)
  from "3.IH"(1) [OF n [symmetric]] d have f: "dom (dirAt h1) \<subseteq> dom (dirAt h2)" by blast
  show ?case
  proof (cases e)
    case (Some err)
    from n' f have "dom (dirAt h) \<subseteq> dom (dirAt h2)" by blast
    with n d Some show ?thesis by simp
  next
    case None
    obtain res3 h3 where p: "decodeDirPtrs blobs h2 = (res3, h3)"
      by (cases "decodeDirPtrs blobs h2")
    from "3.IH"(2) [OF n [symmetric] d [symmetric] None] p
    have m: "dom (dirAt h2) \<subseteq> dom (dirAt h3)"
      and rs: "\<forall>rs. res3 = Inr rs \<longrightarrow> set rs \<subseteq> dom (dirAt h3)"
      by blast+
    from n' f m have sub: "dom (dirAt h) \<subseteq> dom (dirAt h3)" "r \<in> dom (dirAt h3)"
      by blast+
    have eq: "decodeDirPtrs (blob # blobs) h
                = (case res3 of Inl err \<Rightarrow> (Inl err, h3) | Inr rs \<Rightarrow> (Inr (r # rs), h3))"
      using n d None p by simp
    show ?thesis
      unfolding eq using sub rs by (cases res3) simp_all
  qed
qed

lemma Dir_GobDecode_parents:
  assumes run: "Dir_GobDecode buf dir h = (None, h')" and alloc: "dirAt h dir = Some d"
  shows "\<exists>d'. dirAt h' dir = Some d'
           \<and> (\<forall>f \<in> set (Files d'). \<exists>x. fileAt h' f = Some x \<and> File.parent x = Some dir)
           \<and> (\<forall>s \<in> set (SubDirs d'). \<exists>x. dirAt h' s = Some x \<and> Dir.parent x = Some dir)"
proof -
  from run obtain y b ya ba yb bb yc blobs yd rs h4 blobs2 ye fs h6 where
    s: "decodeDirPtrs blobs
          (setDir dir (Dir.strong_update (\<lambda>_. bb))
            (setDir dir (Dir.mode_update (\<lambda>_. ba))
              (setDir dir (Dir.name_update (\<lambda>_. b)) h))) = (Inr rs, h4)"
       "decodeFilePtrs blobs2 (setDir dir (SubDirs_update (\<lambda>_. rs)) h4) = (Inr fs, h6)"
    and h': "h' = fold (\<lambda>subdir. setDir subdir (Dir.parent_update (\<lambda>_. Some dir)))
               (dirSubDirs
                 (fold (\<lambda>file. setFile file (File.parent_update (\<lambda>_. Some dir)))
                   (dirFiles (setDir dir (Files_update (\<lambda>_. fs)) h6) dir)
                   (setDir dir (Files_update (\<lambda>_. fs)) h6)) dir)
               (fold (\<lambda>file. setFile file (File.parent_update (\<lambda>_. Some dir)))
                 (dirFiles (setDir dir (Files_update (\<lambda>_. fs)) h6) dir)
                 (setDir dir (Files_update (\<lambda>_. fs)) h6))"
    by (subst (asm) Dir_GobDecode.simps) (auto split: prod.splits option.splits sum.splits)
  from Dir_GobDecode_frame(2) s(1)
  have sub4: "dom (dirAt (setDir dir (Dir.strong_update (\<lambda>_. bb))
            (setDir dir (Dir.mode_update (\<lambda>_. ba))
              (setDir dir (Dir.name_update (\<lambda>_. b)) h)))) \<subseteq> dom (dirAt h4)"
    and rs: "set rs \<subseteq> dom (dirAt h4)"
    by blast+
  from sub4 alloc have "dir \<in> dom (dirAt h4)"
    by (auto simp: setDir_dom)
  then obtain d4 where d4: "dirAt h4 dir = Some d4"
    by blast
  from decodeFilePtrs_frame [OF s(2)]
  have d6: "dirAt h6 = dirAt (setDir dir (SubDirs_update (\<lambda>_. rs)) h4)"
    and fs: "set fs \<subseteq> dom (fileAt h6)"
    by blast+
  from d6 d4 have dir6: "dirAt h6 dir = Some (d4\<lparr>SubDirs := rs\<rparr>)"
    by (simp add: setDir_def)
  have dir': "dirAt h' dir
      = Some (if dir \<in> set rs then d4\<lparr>SubDirs := rs, Files := fs, Dir.parent := Some dir\<rparr>
              else d4\<lparr>SubDirs := rs, Files := fs\<rparr>)"
    by (simp add: h' fold_setDir_parent fold_setFile_parent dirFiles_def dirSubDirs_def
          setDir_def dir6)
  have files: "\<forall>f \<in> set fs. \<exists>x. fileAt h' f = Some x \<and> File.parent x = Some dir"
  proof
    fix f assume "f \<in> set fs"
    with fs obtain x where "fileAt h6 f = Some x" by blast
    with \<open>f \<in> set fs\<close> show "\<exists>x. fileAt h' f = Some x \<and> File.parent x = Some dir"
      by (simp add: h' fold_setDir_parent fold_setFile_parent dirFiles_def dirSubDirs_def
          setDir_def dir6)
  qed
  have subs: "\<forall>s \<in> set rs. \<exists>x. dirAt h' s = Some x \<and> Dir.parent x = Some dir"
  proof
    fix s assume "s \<in> set rs"
    with rs obtain x where "dirAt h4 s = Some x" by blast
    with \<open>s \<in> set rs\<close> d6 d4 show "\<exists>x. dirAt h' s = Some x \<and> Dir.parent x = Some dir"
      by (auto simp: h' fold_setDir_parent fold_setFile_parent dirFiles_def dirSubDirs_def
          setDir_def dir6)
  qed
  from dir' files subs show ?thesis
    by (cases "dir \<in> set rs") simp_all
qed

lemma File_GobDecode_own_parent:
  assumes "File_GobDecode buf file h = (e, h')"
  shows "map_option File.parent (fileAt h' file) = map_option File.parent (fileAt h file)"
  using assms
  by (auto simp: File_GobDecode_def setFile_def fold_setBlock_parent option.map_comp comp_def
      split: prod.splits option.splits sum.splits if_splits dest!: decodeBlockPtrs_frame)

text \<open>
  C5. After a \<open>GobDecode\<close> of a File that returns no error, every Block in the File's
  \<open>Blocks\<close> has that File as its parent; after a \<open>GobDecode\<close> of a Dir that returns no
  error, every File in its \<open>Files\<close> and every Dir in its \<open>SubDirs\<close> has that Dir as
  its parent. The decoders of a Block and of a File leave the parent of the node they
  decode as it was, whatever the blob holds: a parent is never read from the blob.
\<close>

theorem GobDecode_sets_parents:
  "(File_GobDecode buf file h = (None, h1) \<and> fileAt h file = Some f \<longrightarrow>
      (\<exists>f'. fileAt h1 file = Some f'
         \<and> (\<forall>b \<in> set (Blocks f'). \<exists>blk. blockAt h1 b = Some blk \<and> Block.parent blk = Some file)))
   \<and> (Dir_GobDecode buf dir h = (None, h2) \<and> dirAt h dir = Some d \<longrightarrow>
      (\<exists>d'. dirAt h2 dir = Some d'
         \<and> (\<forall>f \<in> set (Files d'). \<exists>x. fileAt h2 f = Some x \<and> File.parent x = Some dir)
         \<and> (\<forall>s \<in> set (SubDirs d'). \<exists>x. dirAt h2 s = Some x \<and> Dir.parent x = Some dir)))
   \<and> (Block_GobDecode buf block h = (e, h3) \<longrightarrow>
        map_option Block.parent (blockAt h3 block) = map_option Block.parent (blockAt h block))
   \<and> (File_GobDecode buf file h = (e, h4) \<longrightarrow>
        map_option File.parent (fileAt h4 file) = map_option File.parent (fileAt h file))"
  using File_GobDecode_parents [of buf "file" h h1 f] Dir_GobDecode_parents [of buf dir h h2 d]
    Block_GobDecode_frame(5) [of buf block h e h3]
    File_GobDecode_own_parent [of buf "file" h e h4]
  by blast

theorem GobDecode_sets_parents_witness:
  "fst (File_GobDecode exampleFileBlob 0 exampleHeap) = None
   \<and> (\<exists>f'. fileAt (snd (File_GobDecode exampleFileBlob 0 exampleHeap)) 0 = Some f'
         \<and> Blocks f' = [1]
         \<and> list_all (\<lambda>b. \<exists>blk. blockAt (snd (File_GobDecode exampleFileBlob 0 exampleHeap)) b = Some blk
                            \<and> Block.parent blk = Some 0) (Blocks f'))
   \<and> fst (Dir_GobDecode exampleDirBlob 0 exampleHeap) = None
   \<and> (\<exists>d'. dirAt (snd (Dir_GobDecode exampleDirBlob 0 exampleHeap)) 0 = Some d'
         \<and> Files d' = [2] \<and> SubDirs d' = [1]
         \<and> list_all (\<lambda>f. \<exists>x. fileAt (snd (Dir_GobDecode exampleDirBlob 0 exampleHeap)) f = Some x
                            \<and> File.parent x = Some 0) (Files d')
         \<and> list_all (\<lambda>s. \<exists>x. dirAt (snd (Dir_GobDecode exampleDirBlob 0 exampleHeap)) s = Some x
                            \<and> Dir.parent x = Some 0) (SubDirs d'))"
proof -
  let ?hf = "snd (File_GobDecode exampleFileBlob 0 exampleHeap)"
  let ?hd = "snd (Dir_GobDecode exampleDirBlob 0 exampleHeap)"
  have f0: "fileAt exampleHeap 0
              = Some \<lparr>File.name = [], File.mode = 0, File.strong = [], Size = 0, Blocks = [],
                      File.parent = None\<rparr>"
    and d0: "dirAt exampleHeap 0
              = Some \<lparr>Dir.name = [], Dir.mode = 0, Dir.strong = [], SubDirs = [], Files = [],
                      Dir.parent = None\<rparr>"
    by (simp_all add: exampleHeap_def)
  note eval = Dir_GobDecode.simps File_GobDecode_def Block_GobDecode_def
    newDir_def newFile_def newBlock_def checkVersion_def gobNodeVersion_def
    setDir_def setFile_def setBlock_def dirFiles_def dirSubDirs_def fileBlocks_def
    exampleDirBlob_def exampleFileBlob_def exampleBlockBlob_def exampleHeap_def
  have ef: "fst (File_GobDecode exampleFileBlob 0 exampleHeap) = None"
    and bf: "map_option Blocks (fileAt ?hf 0) = Some [1]"
    by (simp_all add: eval)
  have ed: "fst (Dir_GobDecode exampleDirBlob 0 exampleHeap) = None"
    and bd: "map_option Files (dirAt ?hd 0) = Some [2]" "map_option SubDirs (dirAt ?hd 0) = Some [1]"
    by (simp_all add: eval)
  from ef have rf: "File_GobDecode exampleFileBlob 0 exampleHeap = (None, ?hf)"
    by (simp add: prod_eq_iff)
  from ed have rd: "Dir_GobDecode exampleDirBlob 0 exampleHeap = (None, ?hd)"
    by (simp add: prod_eq_iff)
  from GobDecode_sets_parents [of exampleFileBlob 0 exampleHeap ?hf]
    GobDecode_sets_parents [of exampleDirBlob _ exampleHeap _ _ 0 ?hd] rf rd f0 d0
  have "\<exists>f'. fileAt ?hf 0 = Some f'
         \<and> (\<forall>b \<in> set (Blocks f'). \<exists>blk. blockAt ?hf b = Some blk \<and> Block.parent blk = Some 0)"
    and "\<exists>d'. dirAt ?hd 0 = Some d'
         \<and> (\<forall>f \<in> set (Files d'). \<exists>x. fileAt ?hd f = Some x \<and> File.parent x = Some 0)
         \<and> (\<forall>s \<in> set (SubDirs d'). \<exists>x. dirAt ?hd s = Some x \<and> Dir.parent x = Some 0)"
    by blast+
  with ef ed bf bd show ?thesis
    by (auto simp: list_all_iff)
qed

section \<open>The weak rolling checksum: one pass and rolling\<close>

lemma roll_fold_vs_update:
  "len - i = of_nat (length buf) \<Longrightarrow>
   \<exists>A B C. fold (\<lambda>x w. roll 0 x w) buf (WeakChecksum a0 b0) = WeakChecksum A B
          \<and> update_loop len i buf (WeakChecksum a0 c0) = WeakChecksum A C
          \<and> B - b0 - of_nat (length buf) * a0 = C - c0"
proof (induction buf arbitrary: i a0 b0 c0)
  case Nil
  then show ?case by simp
next
  case (Cons x xs)
  from Cons.prems have w: "len - i = of_nat (length xs) + 1"
    by simp
  have "len - (i + 1) = (len - i) - 1"
    by simp
  with w have n: "len - (i + 1) = of_nat (length xs)"
    by simp
  from Cons.IH [OF n, of "a0 + scast x" "b0 + (a0 + scast x)" "c0 + (len - i) * scast x"]
  obtain A B C where
    r: "fold (\<lambda>x w. roll 0 x w) xs (WeakChecksum (a0 + scast x) (b0 + (a0 + scast x)))
          = WeakChecksum A B"
    and u: "update_loop len (i + 1) xs (WeakChecksum (a0 + scast x) (c0 + (len - i) * scast x))
          = WeakChecksum A C"
    and e: "B - (b0 + (a0 + scast x)) - of_nat (length xs) * (a0 + scast x)
          = C - (c0 + (len - i) * scast x)"
    by blast
  have "fold (\<lambda>x w. roll 0 x w) (x # xs) (WeakChecksum a0 b0) = WeakChecksum A B"
    using r by (simp add: Let_def)
  moreover have "update_loop len i (x # xs) (WeakChecksum a0 c0) = WeakChecksum A C"
    using u by simp
  moreover from e have "B - b0 - of_nat (length (x # xs)) * a0 = C - c0"
    unfolding w by (simp add: algebra_simps)
  ultimately show ?case by blast
qed


lemma rolled_snoc:
  "fold (\<lambda>x w. roll 0 x w) (xs @ [y]) w = roll 0 y (fold (\<lambda>x w. roll 0 x w) xs w)"
  by simp

lemma rolled_from_other_start:
  "\<exists>A B. fold (\<lambda>x w. roll 0 x w) xs (WeakChecksum 0 0) = WeakChecksum A B
        \<and> fold (\<lambda>x w. roll 0 x w) xs (WeakChecksum a0 b0)
            = WeakChecksum (a0 + A) (b0 + of_nat (length xs) * a0 + B)"
proof (induction xs rule: rev_induct)
  case Nil
  show ?case by simp
next
  case (snoc y xs)
  then obtain A B where
    z: "fold (\<lambda>x w. roll 0 x w) xs (WeakChecksum 0 0) = WeakChecksum A B"
    and s: "fold (\<lambda>x w. roll 0 x w) xs (WeakChecksum a0 b0)
              = WeakChecksum (a0 + A) (b0 + of_nat (length xs) * a0 + B)"
    by blast
  show ?case
    unfolding rolled_snoc z s by (simp add: Let_def algebra_simps)
qed



text \<open>
  The weights of \<open>update\<close> are the ones \<open>roll\<close> maintains: for a window of 8192
  bytes, rolling the first byte out and a new byte in carries what \<open>update\<close>
  computes over the window to what it computes over the next window.
\<close>

lemma roll_slides_update:
  assumes "length xs = 8191"
  shows "roll x y (update (x # xs)) = update (xs @ [y])"
proof -
  have u: "\<And>buf. update buf = fold (\<lambda>x w. roll 0 x w) buf (WeakChecksum 0 0)"
  proof -
    fix buf
    from roll_fold_vs_update [of "of_nat (length buf)" 0 buf 0 0 0]
    obtain A B C where "fold (\<lambda>x w. roll 0 x w) buf (WeakChecksum 0 0) = WeakChecksum A B"
      "update buf = WeakChecksum A C" "B = C"
      by (auto simp: update_def)
    then show "update buf = fold (\<lambda>x w. roll 0 x w) buf (WeakChecksum 0 0)"
      by simp
  qed
  from rolled_from_other_start [of xs "scast x" "scast x"]
  obtain A B where
    z: "fold (\<lambda>x w. roll 0 x w) xs (WeakChecksum 0 0) = WeakChecksum A B"
    and s: "fold (\<lambda>x w. roll 0 x w) xs (WeakChecksum (scast x) (scast x))
              = WeakChecksum (scast x + A) (scast x + of_nat (length xs) * scast x + B)"
    by blast
  have first: "update (x # xs)
                 = WeakChecksum (scast x + A) (scast x + of_nat (length xs) * scast x + B)"
    unfolding u using s by (simp add: Let_def)
  have next_window: "update (xs @ [y]) = roll 0 y (WeakChecksum A B)"
    unfolding u rolled_snoc z ..
  show ?thesis
    unfolding first next_window using assms
    by (simp add: Let_def BLOCKSIZE_def algebra_simps)
qed

end
